theory Spec2Isabelle
  imports Complex_Main "HOL-Library.Sublist"
begin

section \<open>The SmartInsider intention universe-selection algorithm\<close>

text \<open>
  A shallow embedding of \<^verbatim>\<open>SmartInsiderIntentionUniverseSelectionAlgorithm.py\<close>: the class
  \<^verbatim>\<open>SmartInsiderIntentionUniverseAlgorithm\<close> with its three methods \<^verbatim>\<open>Initialize\<close>,
  \<^verbatim>\<open>UniverseSelection\<close> and \<^verbatim>\<open>OnSecuritiesChanged\<close>.

  The methods only call the host engine and read the fields of the data points it hands
  over. The engine's side is therefore explicit: the algorithm object is a record that the
  methods take and return, an exception is the left summand of a sum, and what the host
  computes on its own (the historical query, the text of a symbol, of a number and of a
  changes record) is a parameter of the method that uses it.
\<close>

subsection \<open>Python values and errors\<close>

text \<open>
  The numeric fields of a universe data point are nullable: Python sees either \<^verbatim>\<open>None\<close> or
  a number. A number is modelled by the rational it denotes, and the literals \<^verbatim>\<open>0.005\<close> and
  \<^verbatim>\<open>100000000\<close> by the rationals of the same name; binary rounding is outside the model.
\<close>

datatype pyval = PyNone | PyNum rat

datatype error = TypeError | ValueError string

text \<open>Truth value testing: \<^verbatim>\<open>None\<close> and zero are false, every other number is true.\<close>

fun truthy :: "pyval \<Rightarrow> bool" where
  "truthy PyNone = False"
| "truthy (PyNum x) = (x \<noteq> 0)"

text \<open>\<^verbatim>\<open>v > c\<close> for a numeric literal \<^verbatim>\<open>c\<close>: ordering \<^verbatim>\<open>None\<close> against a number raises.\<close>

fun py_gt :: "pyval \<Rightarrow> rat \<Rightarrow> error + bool" where
  "py_gt PyNone c = Inl TypeError"
| "py_gt (PyNum x) c = Inr (c < x)"

text \<open>
  The evaluation of a condition yields its outcome together with the comparisons that
  were carried out on the way, each as its pair of operands, in evaluation order.
\<close>

type_synonym comparison = "pyval \<times> rat"

type_synonym 'a eval = "comparison list \<times> (error + 'a)"

definition test :: "pyval \<Rightarrow> bool eval" where
  "test v = ([], Inr (truthy v))"

definition gt :: "pyval \<Rightarrow> rat \<Rightarrow> bool eval" where
  "gt v c = ([(v, c)], py_gt v c)"

text \<open>
  \<^verbatim>\<open>a and b\<close> in a condition: \<^verbatim>\<open>b\<close> is evaluated only when \<^verbatim>\<open>a\<close> came out true; an
  exception in \<^verbatim>\<open>a\<close>, or a false \<^verbatim>\<open>a\<close>, is the outcome of the whole.
\<close>

definition py_and :: "bool eval \<Rightarrow> bool eval \<Rightarrow> bool eval" where
  "py_and a b =
     (case snd a of
        Inl e \<Rightarrow> a
      | Inr False \<Rightarrow> a
      | Inr True \<Rightarrow> (fst a @ fst b, snd b))"

subsection \<open>The data model\<close>

text \<open>A universe data point, as the engine's data source produces it.\<close>

record 's datum =
  Symbol :: 's
  Amount :: pyval
  AmountValue :: pyval
  Percentage :: pyval
  MinimumPrice :: pyval
  MaximumPrice :: pyval
  USDMarketCap :: pyval

datatype resolution = Tick | Second | Minute | Hour | Daily

datatype selector = UniverseSelection_method

record universe =
  data_type :: string
  universe_selector :: selector

record timespan =
  days :: nat
  hours :: nat
  minutes :: nat
  seconds :: nat

text \<open>
  The state of the algorithm object that the three methods touch: the engine settings
  written by \<^verbatim>\<open>Initialize\<close>, the registered universes and the lines given to \<^verbatim>\<open>Log\<close>.
\<close>

record algorithm =
  UniverseSettings_Resolution :: resolution
  StartDate :: "nat \<times> nat \<times> nat"
  EndDate :: "nat \<times> nat \<times> nat"
  Cash :: int
  Universes :: "universe list"
  LogLines :: "string list"

definition SetStartDate :: "nat \<Rightarrow> nat \<Rightarrow> nat \<Rightarrow> algorithm \<Rightarrow> algorithm" where
  "SetStartDate y m d self = self\<lparr>StartDate := (y, m, d)\<rparr>"

definition SetEndDate :: "nat \<Rightarrow> nat \<Rightarrow> nat \<Rightarrow> algorithm \<Rightarrow> algorithm" where
  "SetEndDate y m d self = self\<lparr>EndDate := (y, m, d)\<rparr>"

definition SetCash :: "int \<Rightarrow> algorithm \<Rightarrow> algorithm" where
  "SetCash c self = self\<lparr>Cash := c\<rparr>"

definition AddUniverse :: "string \<Rightarrow> selector \<Rightarrow> algorithm \<Rightarrow> universe \<times> algorithm" where
  "AddUniverse T f self =
     (let u = \<lparr>data_type = T, universe_selector = f\<rparr>
      in (u, self\<lparr>Universes := Universes self @ [u]\<rparr>))"

definition Log :: "string \<Rightarrow> algorithm \<Rightarrow> algorithm" where
  "Log line self = self\<lparr>LogLines := LogLines self @ [line]\<rparr>"

definition TimeSpan :: "nat \<Rightarrow> nat \<Rightarrow> nat \<Rightarrow> nat \<Rightarrow> timespan" where
  "TimeSpan d h m s = \<lparr>days = d, hours = h, minutes = m, seconds = s\<rparr>"

subsection \<open>Initialize\<close>

text \<open>The decimal text of \<^verbatim>\<open>len(history)\<close> inside the f-string of the first error.\<close>

definition digit_char :: "nat \<Rightarrow> char" where
  "digit_char n = char_of (48 + n)"

fun str_nat :: "nat \<Rightarrow> string" where
  "str_nat n =
     (if n < 10 then [digit_char n] else str_nat (n div 10) @ [digit_char (n mod 10)])"

declare str_nat.simps [simp del]

text \<open>Lines 19 to 26: the engine settings and the registration of the universe.\<close>

definition Initialize_settings :: "algorithm \<Rightarrow> universe \<times> algorithm" where
  "Initialize_settings self =
     (let self = self\<lparr>UniverseSettings_Resolution := Daily\<rparr>;
          self = SetStartDate 2022 2 14 self;
          self = SetEndDate 2022 2 18 self;
          self = SetCash 100000 self
      in AddUniverse ''SmartInsiderIntentionUniverse'' UniverseSelection_method self)"

text \<open>Lines 32 to 34: the loop over the dated entries of the history.\<close>

fun check_dataForDate :: "'d list list \<Rightarrow> error + unit" where
  "check_dataForDate [] = Inr ()"
| "check_dataForDate (dataForDate # rest) =
     (if length dataForDate < 1
      then Inl (ValueError ''Unexpected historical universe data!'')
      else check_dataForDate rest)"

text \<open>
  \<^verbatim>\<open>Initialize\<close>. The historical query belongs to the engine: \<open>History\<close> is given the
  algorithm object as it is at the moment of the call, the universe and the time span, and
  returns the dated entries, each a list of records.
\<close>

definition Initialize ::
  "(algorithm \<Rightarrow> universe \<Rightarrow> timespan \<Rightarrow> 'd list list) \<Rightarrow> algorithm \<Rightarrow> algorithm \<times> (error + unit)"
where
  "Initialize History self =
     (let (universe, self) = Initialize_settings self;
          history = History self universe (TimeSpan 10 0 0 0)
      in if length history \<noteq> 10
         then (self, Inl (ValueError (''Unexpected history count '' @ str_nat (length history) @ ''!'')))
         else (self, check_dataForDate history))"

subsection \<open>UniverseSelection\<close>

text \<open>
  The f-string of line 38. The text of a symbol and of a number is the host's, hence the
  two parameters; \<^verbatim>\<open>None\<close> prints as \<^verbatim>\<open>None\<close>.
\<close>

fun format_val :: "(rat \<Rightarrow> string) \<Rightarrow> pyval \<Rightarrow> string" where
  "format_val str_num PyNone = ''None''"
| "format_val str_num (PyNum x) = str_num x"

definition log_line :: "('s \<Rightarrow> string) \<Rightarrow> (rat \<Rightarrow> string) \<Rightarrow> 's datum \<Rightarrow> string" where
  "log_line str_sym str_num datum =
     str_sym (Symbol datum) @ '','' @ format_val str_num (Amount datum) @ '','' @
     format_val str_num (AmountValue datum) @ '','' @ format_val str_num (Percentage datum) @ '','' @
     format_val str_num (MinimumPrice datum) @ '','' @ format_val str_num (MaximumPrice datum) @ '','' @
     format_val str_num (USDMarketCap datum)"

text \<open>Lines 37 and 38: one log line per data point.\<close>

fun log_data :: "('s datum \<Rightarrow> string) \<Rightarrow> algorithm \<Rightarrow> 's datum list \<Rightarrow> algorithm" where
  "log_data f self [] = self"
| "log_data f self (datum # rest) = log_data f (Log (f datum) self) rest"

text \<open>The condition of the comprehension, lines 42 and 43.\<close>

definition selection_criteria :: "'s datum \<Rightarrow> bool eval" where
  "selection_criteria d =
     py_and (test (Percentage d)) (py_and (gt (Percentage d) 0.005)
       (py_and (test (USDMarketCap d)) (gt (USDMarketCap d) 100000000)))"

text \<open>
  The comprehension of lines 41 to 43: the points are visited in order, an exception in
  the condition ends the evaluation, and a point whose condition is true contributes its
  symbol.
\<close>

fun select_symbols :: "'s datum list \<Rightarrow> 's list eval" where
  "select_symbols [] = ([], Inr [])"
| "select_symbols (d # ds) =
     (case selection_criteria d of
        (t, Inl e) \<Rightarrow> (t, Inl e)
      | (t, Inr b) \<Rightarrow>
          (case select_symbols ds of
             (t', Inl e) \<Rightarrow> (t @ t', Inl e)
           | (t', Inr r) \<Rightarrow> (t @ t', Inr (if b then Symbol d # r else r))))"

definition UniverseSelection ::
  "('s \<Rightarrow> string) \<Rightarrow> (rat \<Rightarrow> string) \<Rightarrow> algorithm \<Rightarrow> 's datum list \<Rightarrow> algorithm \<times> (error + 's list)"
where
  "UniverseSelection str_sym str_num self data =
     (let self = log_data (log_line str_sym str_num) self data
      in (self, snd (select_symbols data)))"

text \<open>The method a registered selector stands for.\<close>

fun selector_method ::
  "selector \<Rightarrow> ('s \<Rightarrow> string) \<Rightarrow> (rat \<Rightarrow> string) \<Rightarrow> algorithm \<Rightarrow> 's datum list \<Rightarrow> algorithm \<times> (error + 's list)"
where
  "selector_method UniverseSelection_method = UniverseSelection"

subsection \<open>OnSecuritiesChanged\<close>

text \<open>Line 46; \<open>ToString\<close> is the changes record's own method.\<close>

definition OnSecuritiesChanged :: "('c \<Rightarrow> string) \<Rightarrow> algorithm \<Rightarrow> 'c \<Rightarrow> algorithm \<times> (error + unit)" where
  "OnSecuritiesChanged ToString self changes = (Log (ToString changes) self, Inr ())"

subsection \<open>The selection rule in the specification's words\<close>

text \<open>
  A field exceeds a threshold when it is present and strictly greater; a point qualifies
  when its \<open>Percentage\<close> exceeds 0.005 and its \<open>USDMarketCap\<close> exceeds 100,000,000.
\<close>

fun exceeds :: "pyval \<Rightarrow> rat \<Rightarrow> bool" where
  "exceeds PyNone c = False"
| "exceeds (PyNum x) c = (c < x)"

definition qualifies :: "'s datum \<Rightarrow> bool" where
  "qualifies d \<longleftrightarrow> exceeds (Percentage d) 0.005 \<and> exceeds (USDMarketCap d) 100000000"

subsection \<open>Concrete values for the examples\<close>

text \<open>An algorithm object before \<^verbatim>\<open>Initialize\<close> has run, and a data point given by its
  symbol and its two filtered fields, the other fields being \<^verbatim>\<open>None\<close>.\<close>

definition default_algorithm :: algorithm where
  "default_algorithm =
     \<lparr>UniverseSettings_Resolution = Minute, StartDate = (1998, 1, 1), EndDate = (1998, 1, 2),
      Cash = 0, Universes = [], LogLines = []\<rparr>"

definition point :: "string \<Rightarrow> pyval \<Rightarrow> pyval \<Rightarrow> string datum" where
  "point s p m =
     \<lparr>Symbol = s, Amount = PyNone, AmountValue = PyNone, Percentage = p,
      MinimumPrice = PyNone, MaximumPrice = PyNone, USDMarketCap = m\<rparr>"

section \<open>Properties\<close>

subsection \<open>The comprehension computes the rule and never compares None\<close>

lemma py_and_simps:
  "py_and (t, Inl e) b = (t, Inl e)"
  "py_and (t, Inr False) b = (t, Inr False)"
  "py_and (t, Inr True) b = (t @ fst b, snd b)"
  by (simp_all add: py_and_def)

lemma selection_criteria_outcome: "snd (selection_criteria d) = Inr (qualifies d)"
proof (cases "Percentage d")
  case PyNone
  then show ?thesis
    by (simp add: selection_criteria_def qualifies_def test_def py_and_simps)
next
  case p: (PyNum x)
  show ?thesis
  proof (cases "USDMarketCap d")
    case PyNone
    then show ?thesis
      by (cases "x = 0"; cases "0.005 < x")
         (simp_all add: p selection_criteria_def qualifies_def test_def gt_def py_and_simps)
  next
    case (PyNum y)
    then show ?thesis
      by (cases "x = 0"; cases "0.005 < x"; cases "y = 0"; cases "100000000 < y")
         (simp_all add: p selection_criteria_def qualifies_def test_def gt_def py_and_simps)
  qed
qed

lemma selection_criteria_compared:
  assumes a: "(v, c) \<in> set (fst (selection_criteria d))"
  shows "v \<noteq> PyNone"
proof (cases "Percentage d")
  case PyNone
  with a show ?thesis
    by (simp add: selection_criteria_def test_def py_and_simps)
next
  case p: (PyNum x)
  show ?thesis
  proof (cases "USDMarketCap d")
    case PyNone
    with a show ?thesis
      by (cases "x = 0"; cases "0.005 < x")
         (simp_all add: p selection_criteria_def test_def gt_def py_and_simps)
  next
    case (PyNum y)
    with a show ?thesis
      by (cases "x = 0"; cases "0.005 < x"; cases "y = 0"; cases "100000000 < y")
         (auto simp add: p selection_criteria_def test_def gt_def py_and_simps)
  qed
qed

lemma select_symbols_outcome:
  "snd (select_symbols data) = Inr (map Symbol (filter qualifies data))"
proof (induction data)
  case Nil
  show ?case by simp
next
  case (Cons d ds)
  obtain t where t: "selection_criteria d = (t, Inr (qualifies d))"
    using selection_criteria_outcome [of d] by (cases "selection_criteria d") simp
  obtain t' where t': "select_symbols ds = (t', Inr (map Symbol (filter qualifies ds)))"
    using Cons.IH by (cases "select_symbols ds") simp
  show ?case by (simp add: t t')
qed

lemma select_symbols_compared:
  "(v, c) \<in> set (fst (select_symbols data)) \<Longrightarrow> v \<noteq> PyNone"
proof (induction data)
  case Nil
  then show ?case by simp
next
  case (Cons d ds)
  obtain t where t: "selection_criteria d = (t, Inr (qualifies d))"
    using selection_criteria_outcome [of d] by (cases "selection_criteria d") simp
  obtain t' where t': "select_symbols ds = (t', Inr (map Symbol (filter qualifies ds)))"
    using select_symbols_outcome [of ds] by (cases "select_symbols ds") simp
  from Cons.prems have "(v, c) \<in> set t \<or> (v, c) \<in> set t'"
    by (simp add: t t')
  then show ?case
    using selection_criteria_compared [of v c d] Cons.IH by (auto simp: t t')
qed

lemma log_data_lines:
  "log_data f self data = self\<lparr>LogLines := LogLines self @ map f data\<rparr>"
  by (induction data arbitrary: self) (simp_all add: Log_def)

lemma UniverseSelection_result:
  "snd (UniverseSelection str_sym str_num self data) = Inr (map Symbol (filter qualifies data))"
  by (simp add: UniverseSelection_def Let_def select_symbols_outcome)

lemma qualifies_iff:
  "qualifies d \<longleftrightarrow>
     (\<exists>p m. Percentage d = PyNum p \<and> 0.005 < p \<and> USDMarketCap d = PyNum m \<and> 100000000 < m)"
  by (cases "Percentage d"; cases "USDMarketCap d") (simp_all add: qualifies_def)

lemma selection_criteria_True_iff:
  "snd (selection_criteria d) = Inr True \<longleftrightarrow> qualifies d"
  by (simp add: selection_criteria_outcome)

lemma mem_selected:
  "x \<in> set (map Symbol (filter qualifies data)) \<longleftrightarrow> (\<exists>d \<in> set data. Symbol d = x \<and> qualifies d)"
  by (induction data) auto

lemma count_selected:
  "count_list (map Symbol (filter qualifies data)) x =
     length (filter (\<lambda>d. Symbol d = x \<and> qualifies d) data)"
  by (induction data) auto

lemma subseq_selected: "subseq (map Symbol (filter qualifies data)) (map Symbol data)"
  by (induction data) auto

lemma filter_nonnull_qualifies:
  "filter qualifies (filter (\<lambda>d. Percentage d \<noteq> PyNone \<and> USDMarketCap d \<noteq> PyNone) data) =
     filter qualifies data"
  by (induction data) (auto simp: qualifies_def)

subsection \<open>Initialize, unfolded\<close>

lemma check_dataForDate_eq:
  "check_dataForDate history =
     (if [] \<in> set history then Inl (ValueError ''Unexpected historical universe data!'') else Inr ())"
  by (induction history) auto

lemma Initialize_settings_eq:
  "Initialize_settings self =
     (\<lparr>data_type = ''SmartInsiderIntentionUniverse'', universe_selector = UniverseSelection_method\<rparr>,
      self\<lparr>UniverseSettings_Resolution := Daily, StartDate := (2022, 2, 14), EndDate := (2022, 2, 18),
        Cash := 100000,
        Universes := Universes self @
          [\<lparr>data_type = ''SmartInsiderIntentionUniverse'', universe_selector = UniverseSelection_method\<rparr>]\<rparr>)"
  by (simp add: Initialize_settings_def SetStartDate_def SetEndDate_def SetCash_def AddUniverse_def Let_def)

lemma Initialize_eq:
  "Initialize History self =
     (let self' = snd (Initialize_settings self);
          history = History self' (fst (Initialize_settings self)) (TimeSpan 10 0 0 0)
      in (self', if length history \<noteq> 10
             then Inl (ValueError (''Unexpected history count '' @ str_nat (length history) @ ''!''))
             else if [] \<in> set history then Inl (ValueError ''Unexpected historical universe data!'')
             else Inr ()))"
  by (simp add: Initialize_def Let_def check_dataForDate_eq split: prod.splits)

subsection \<open>C1: which symbols are returned\<close>

text \<open>
  C1 as stated fails. It says that the symbol of a data point is in the returned list if
  and only if that very point has a \<open>Percentage\<close> above 0.005 and a \<open>USDMarketCap\<close> above
  100,000,000. Two points may carry the same symbol: below, the second point has both
  fields \<^verbatim>\<open>None\<close>, and its symbol is in the returned list all the same, put there by the
  first point.
\<close>

theorem shared_symbol_listed_without_qualifying:
  "snd (UniverseSelection (\<lambda>s. s) (\<lambda>x. ''1'') default_algorithm
          [point ''AAA'' (PyNum 0.01) (PyNum 200000000), point ''AAA'' PyNone PyNone]) = Inr [''AAA'']
   \<and> Symbol (point ''AAA'' PyNone PyNone) \<in> set [''AAA'']
   \<and> Percentage (point ''AAA'' PyNone PyNone) = PyNone"
  by (simp add: UniverseSelection_def selection_criteria_def py_and_simps test_def gt_def point_def)

text \<open>
  C1, amended. \<^verbatim>\<open>UniverseSelection\<close> returns a list, and for every data point of the input:
  the condition of the comprehension is true for the point if and only if its
  \<open>Percentage\<close> is a number above 0.005 and its \<open>USDMarketCap\<close> is a number above
  100,000,000; a \<open>Percentage\<close> of exactly 0.005 or a \<open>USDMarketCap\<close> of exactly
  100,000,000 makes the condition false; the point's symbol is in the returned list if and
  only if the condition is true for some point of the input with that symbol; and when no
  other point of the input has the same symbol, the symbol is in the returned list if and
  only if the point itself meets the two thresholds.
\<close>

theorem UniverseSelection_symbol_listed_iff:
  "\<exists>r. snd (UniverseSelection str_sym str_num self data) = Inr r \<and>
     (\<forall>d \<in> set data.
        (snd (selection_criteria d) = Inr True \<longleftrightarrow>
           (\<exists>p m. Percentage d = PyNum p \<and> 0.005 < p \<and> USDMarketCap d = PyNum m \<and> 100000000 < m)) \<and>
        (Percentage d = PyNum 0.005 \<or> USDMarketCap d = PyNum 100000000 \<longrightarrow>
           snd (selection_criteria d) = Inr False) \<and>
        (Symbol d \<in> set r \<longleftrightarrow>
           (\<exists>d' \<in> set data. Symbol d' = Symbol d \<and> snd (selection_criteria d') = Inr True)) \<and>
        ((\<forall>d' \<in> set data. Symbol d' = Symbol d \<longrightarrow> d' = d) \<longrightarrow>
           (Symbol d \<in> set r \<longleftrightarrow>
              (\<exists>p m. Percentage d = PyNum p \<and> 0.005 < p \<and> USDMarketCap d = PyNum m \<and> 100000000 < m))))"
proof (intro exI conjI ballI)
  show "snd (UniverseSelection str_sym str_num self data) = Inr (map Symbol (filter qualifies data))"
    by (rule UniverseSelection_result)
next
  fix d
  show "snd (selection_criteria d) = Inr True \<longleftrightarrow>
      (\<exists>p m. Percentage d = PyNum p \<and> 0.005 < p \<and> USDMarketCap d = PyNum m \<and> 100000000 < m)"
    by (simp add: selection_criteria_outcome qualifies_iff)
next
  fix d
  show "Percentage d = PyNum 0.005 \<or> USDMarketCap d = PyNum 100000000 \<longrightarrow>
      snd (selection_criteria d) = Inr False"
    by (auto simp: selection_criteria_outcome qualifies_iff)
next
  fix d
  show "Symbol d \<in> set (map Symbol (filter qualifies data)) \<longleftrightarrow>
      (\<exists>d' \<in> set data. Symbol d' = Symbol d \<and> snd (selection_criteria d') = Inr True)"
    by (simp only: mem_selected selection_criteria_True_iff)
next
  fix d assume "d \<in> set data"
  then show "(\<forall>d' \<in> set data. Symbol d' = Symbol d \<longrightarrow> d' = d) \<longrightarrow>
      (Symbol d \<in> set (map Symbol (filter qualifies data)) \<longleftrightarrow>
         (\<exists>p m. Percentage d = PyNum p \<and> 0.005 < p \<and> USDMarketCap d = PyNum m \<and> 100000000 < m))"
    unfolding qualifies_iff [symmetric] mem_selected by blast
qed


theorem UniverseSelection_symbol_listed_iff_witness:
  "\<exists>r. snd (UniverseSelection (\<lambda>s. s) (\<lambda>x. ''1'') default_algorithm
          [point ''AAA'' (PyNum 0.0050001) (PyNum 100000001), point ''BBB'' (PyNum 0.005) (PyNum 100000001)]) = Inr r
     \<and> ''AAA'' \<in> set r \<and> ''BBB'' \<notin> set r"
proof -
  let ?a = "point ''AAA'' (PyNum 0.0050001) (PyNum 100000001)"
  let ?b = "point ''BBB'' (PyNum 0.005) (PyNum 100000001)"
  obtain r where r: "snd (UniverseSelection (\<lambda>s. s) (\<lambda>x. ''1'') default_algorithm [?a, ?b]) = Inr r"
    and all: "\<forall>d \<in> set [?a, ?b].
        (snd (selection_criteria d) = Inr True \<longleftrightarrow>
           (\<exists>p m. Percentage d = PyNum p \<and> 0.005 < p \<and> USDMarketCap d = PyNum m \<and> 100000000 < m)) \<and>
        (Percentage d = PyNum 0.005 \<or> USDMarketCap d = PyNum 100000000 \<longrightarrow>
           snd (selection_criteria d) = Inr False) \<and>
        (Symbol d \<in> set r \<longleftrightarrow>
           (\<exists>d' \<in> set [?a, ?b]. Symbol d' = Symbol d \<and> snd (selection_criteria d') = Inr True)) \<and>
        ((\<forall>d' \<in> set [?a, ?b]. Symbol d' = Symbol d \<longrightarrow> d' = d) \<longrightarrow>
           (Symbol d \<in> set r \<longleftrightarrow>
              (\<exists>p m. Percentage d = PyNum p \<and> 0.005 < p \<and> USDMarketCap d = PyNum m \<and> 100000000 < m)))"
    using UniverseSelection_symbol_listed_iff [of "\<lambda>s. s" "\<lambda>x. ''1''" default_algorithm "[?a, ?b]"] by blast
  have ina: "?a \<in> set [?a, ?b]" and inb: "?b \<in> set [?a, ?b]"
    by simp_all
  have ua: "\<forall>d' \<in> set [?a, ?b]. Symbol d' = Symbol ?a \<longrightarrow> d' = ?a"
    and ub: "\<forall>d' \<in> set [?a, ?b]. Symbol d' = Symbol ?b \<longrightarrow> d' = ?b"
    by (simp_all add: point_def)
  have a: "Symbol ?a \<in> set r \<longleftrightarrow>
      (\<exists>p m. Percentage ?a = PyNum p \<and> 0.005 < p \<and> USDMarketCap ?a = PyNum m \<and> 100000000 < m)"
    using all ina ua by blast
  have b: "Symbol ?b \<in> set r \<longleftrightarrow>
      (\<exists>p m. Percentage ?b = PyNum p \<and> 0.005 < p \<and> USDMarketCap ?b = PyNum m \<and> 100000000 < m)"
    using all inb ub by blast
  have "Symbol ?a \<in> set r"
    unfolding a by (rule exI [of _ "0.0050001"], rule exI [of _ "100000001"]) (simp add: point_def)
  moreover have "Symbol ?b \<notin> set r"
    unfolding b by (simp add: point_def)
  ultimately show ?thesis
    using r by (simp add: point_def)
qed

subsection \<open>C2: when Initialize raises\<close>

text \<open>
  C2. Let \<open>history\<close> be what the 10-day historical query returns when \<^verbatim>\<open>Initialize\<close>
  issues it. \<^verbatim>\<open>Initialize\<close> raises if and only if \<open>history\<close> does not have exactly 10
  dated entries or one of its entries is empty; with 10 entries, none of them empty,
  it completes without raising; and an error it raises is a \<^verbatim>\<open>ValueError\<close> carrying one of
  the two messages of the source.
\<close>

theorem Initialize_raises_iff:
  assumes "Initialize_settings self = (universe, self')"
    and "History self' universe (TimeSpan 10 0 0 0) = history"
  shows "(isl (snd (Initialize History self)) \<longleftrightarrow> length history \<noteq> 10 \<or> [] \<in> set history) \<and>
         (length history = 10 \<and> [] \<notin> set history \<longrightarrow> snd (Initialize History self) = Inr ()) \<and>
         (\<forall>e. snd (Initialize History self) = Inl e \<longrightarrow>
            e = ValueError (''Unexpected history count '' @ str_nat (length history) @ ''!'') \<or>
            e = ValueError ''Unexpected historical universe data!'')"
  using assms by (simp add: Initialize_eq)

theorem Initialize_raises_iff_witness:
  "snd (Initialize (\<lambda>a u t. replicate 10 [True]) default_algorithm) = Inr () \<and>
   isl (snd (Initialize (\<lambda>a u t. replicate 9 [True]) default_algorithm)) \<and>
   isl (snd (Initialize (\<lambda>a u t. [] # replicate 9 [True]) default_algorithm))"
proof -
  obtain universe self' where s: "Initialize_settings default_algorithm = (universe, self')"
    by (cases "Initialize_settings default_algorithm")
  have h10: "(\<lambda>a u t. replicate 10 [True]) self' universe (TimeSpan 10 0 0 0) = replicate 10 [True]"
    and h9: "(\<lambda>a u t. replicate 9 [True]) self' universe (TimeSpan 10 0 0 0) = replicate 9 [True]"
    and h0: "(\<lambda>a u t. [] # replicate 9 [True]) self' universe (TimeSpan 10 0 0 0) = [] # replicate 9 [True]"
    by simp_all
  have ok: "length (replicate 10 [True]) = 10 \<and> [] \<notin> set (replicate 10 [True])"
    by simp
  have short: "length (replicate 9 [True]) \<noteq> 10 \<or> [] \<in> set (replicate 9 [True])"
    by simp
  have empty: "length ([] # replicate 9 [True]) \<noteq> 10 \<or> [] \<in> set ([] # replicate 9 [True])"
    by simp
  have "snd (Initialize (\<lambda>a u t. replicate 10 [True]) default_algorithm) = Inr ()"
    using Initialize_raises_iff [OF s h10, THEN conjunct2, THEN conjunct1] ok by (rule mp)
  moreover have "isl (snd (Initialize (\<lambda>a u t. replicate 9 [True]) default_algorithm))"
    using Initialize_raises_iff [OF s h9, THEN conjunct1] short by (rule iffD2)
  moreover have "isl (snd (Initialize (\<lambda>a u t. [] # replicate 9 [True]) default_algorithm))"
    using Initialize_raises_iff [OF s h0, THEN conjunct1] empty by (rule iffD2)
  ultimately show ?thesis by (intro conjI)
qed

subsection \<open>C3: null fields\<close>

text \<open>
  C3. \<^verbatim>\<open>UniverseSelection\<close> returns a list, the same list as on the input with every point
  removed that has a null \<open>Percentage\<close> or a null \<open>USDMarketCap\<close>; for a point with
  either field null the condition is false, whatever the other field; and among the
  comparisons carried out while the comprehension is evaluated, none has \<^verbatim>\<open>None\<close> as its
  operand, so none raises the \<^verbatim>\<open>TypeError\<close> that comparing \<^verbatim>\<open>None\<close> with a number raises.
\<close>

theorem null_fields_excluded_unevaluated:
  "(\<exists>r. snd (UniverseSelection str_sym str_num self data) = Inr r \<and>
        snd (UniverseSelection str_sym str_num self
               (filter (\<lambda>d. Percentage d \<noteq> PyNone \<and> USDMarketCap d \<noteq> PyNone) data)) = Inr r) \<and>
   (\<forall>d \<in> set data. Percentage d = PyNone \<or> USDMarketCap d = PyNone \<longrightarrow>
        snd (selection_criteria d) = Inr False) \<and>
   (\<forall>(v, c) \<in> set (fst (select_symbols data)). v \<noteq> PyNone \<and> py_gt v c \<noteq> Inl TypeError) \<and>
   (\<forall>c. py_gt PyNone c = Inl TypeError)"
proof (intro conjI)
  show "\<exists>r. snd (UniverseSelection str_sym str_num self data) = Inr r \<and>
        snd (UniverseSelection str_sym str_num self
               (filter (\<lambda>d. Percentage d \<noteq> PyNone \<and> USDMarketCap d \<noteq> PyNone) data)) = Inr r"
    by (simp only: UniverseSelection_result filter_nonnull_qualifies) simp
  show "\<forall>d \<in> set data. Percentage d = PyNone \<or> USDMarketCap d = PyNone \<longrightarrow>
        snd (selection_criteria d) = Inr False"
    by (auto simp: selection_criteria_outcome qualifies_def)
  show "\<forall>(v, c) \<in> set (fst (select_symbols data)). v \<noteq> PyNone \<and> py_gt v c \<noteq> Inl TypeError"
  proof (clarify, rule conjI)
    fix v c assume vc: "(v, c) \<in> set (fst (select_symbols data))"
    then show "v \<noteq> PyNone" by (rule select_symbols_compared)
    then show "py_gt v c \<noteq> Inl TypeError" by (cases v) simp_all
  qed
  show "\<forall>c. py_gt PyNone c = Inl TypeError" by simp
qed

theorem null_fields_excluded_unevaluated_witness:
  "snd (UniverseSelection (\<lambda>s. s) (\<lambda>x. ''1'') default_algorithm
          [point ''AAA'' (PyNum 0.01) PyNone, point ''BBB'' PyNone (PyNum 200000000)]) = Inr [] \<and>
   snd (selection_criteria (point ''AAA'' (PyNum 0.01) PyNone)) = Inr False \<and>
   snd (selection_criteria (point ''BBB'' PyNone (PyNum 200000000))) = Inr False \<and>
   fst (select_symbols [point ''AAA'' (PyNum 0.01) PyNone, point ''BBB'' PyNone (PyNum 200000000)]) =
     [(PyNum 0.01, 0.005)]"
proof -
  let ?a = "point ''AAA'' (PyNum 0.01) PyNone"
  let ?b = "point ''BBB'' PyNone (PyNum 200000000)"
  note c = null_fields_excluded_unevaluated [of "\<lambda>s. s" "\<lambda>x. ''1''" default_algorithm "[?a, ?b]"]
  have nulls: "\<forall>d \<in> set [?a, ?b]. Percentage d = PyNone \<or> USDMarketCap d = PyNone \<longrightarrow>
        snd (selection_criteria d) = Inr False"
    using c by blast
  have a: "snd (selection_criteria ?a) = Inr False"
    using nulls by (simp add: point_def)
  have b: "snd (selection_criteria ?b) = Inr False"
    using nulls by (simp add: point_def)
  obtain r where r1: "snd (UniverseSelection (\<lambda>s. s) (\<lambda>x. ''1'') default_algorithm [?a, ?b]) = Inr r"
    and r2: "snd (UniverseSelection (\<lambda>s. s) (\<lambda>x. ''1'') default_algorithm
               (filter (\<lambda>d. Percentage d \<noteq> PyNone \<and> USDMarketCap d \<noteq> PyNone) [?a, ?b])) = Inr r"
    using c by blast
  have "filter (\<lambda>d. Percentage d \<noteq> PyNone \<and> USDMarketCap d \<noteq> PyNone) [?a, ?b] = []"
    by (simp add: point_def)
  with r2 have "r = []"
    by (simp add: UniverseSelection_def)
  with r1 have r: "snd (UniverseSelection (\<lambda>s. s) (\<lambda>x. ''1'') default_algorithm [?a, ?b]) = Inr []"
    by simp
  have t: "fst (select_symbols [?a, ?b]) = [(PyNum 0.01, 0.005)]"
    by (simp add: selection_criteria_def py_and_simps test_def gt_def point_def)
  from a b r t show ?thesis by simp
qed

subsection \<open>C4: order and multiplicity\<close>

text \<open>
  C4. The list returned by \<^verbatim>\<open>UniverseSelection\<close> is the list of the symbols of the
  qualifying points, in input order: it is a subsequence of the symbols of the input, and
  a symbol occurs in it as many times as there are qualifying points with that symbol.
\<close>

theorem UniverseSelection_ordered_subsequence:
  "snd (UniverseSelection str_sym str_num self data) = Inr (map Symbol (filter qualifies data)) \<and>
   subseq (map Symbol (filter qualifies data)) (map Symbol data) \<and>
   (\<forall>x. count_list (map Symbol (filter qualifies data)) x =
          length (filter (\<lambda>d. Symbol d = x \<and> qualifies d) data))"
  by (simp add: UniverseSelection_result subseq_selected count_selected)

subsection \<open>C5: determinism and statelessness\<close>

text \<open>
  C5. The list returned by \<^verbatim>\<open>UniverseSelection\<close> depends on the input collection only:
  two invocations on the same collection return the same list, whatever the algorithm
  object and the host's formatting, in particular when the second invocation follows the
  first. The invocation leaves the algorithm object as it was except for the log, which
  gains one line per data point, the same lines whatever is selected.
\<close>

theorem UniverseSelection_deterministic_stateless:
  "snd (UniverseSelection str_sym str_num self data) = snd (UniverseSelection str_sym' str_num' self' data) \<and>
   snd (UniverseSelection str_sym str_num (fst (UniverseSelection str_sym str_num self data)) data) =
     snd (UniverseSelection str_sym str_num self data) \<and>
   fst (UniverseSelection str_sym str_num self data) =
     self\<lparr>LogLines := LogLines self @ map (log_line str_sym str_num) data\<rparr>"
  by (simp add: UniverseSelection_result) (simp add: UniverseSelection_def log_data_lines)

subsection \<open>C6: logging does not affect the result\<close>

text \<open>
  C6. \<^verbatim>\<open>UniverseSelection\<close>, which logs every point first, returns the list that the
  comprehension yields on its own, without the log step; it does not raise, and neither
  does \<^verbatim>\<open>OnSecuritiesChanged\<close>.
\<close>

theorem logging_leaves_selection_unchanged:
  "(\<exists>r. snd (UniverseSelection str_sym str_num self data) = Inr r \<and>
        snd (select_symbols data) = Inr r) \<and>
   snd (OnSecuritiesChanged ToString self' changes) = Inr ()"
  by (simp add: UniverseSelection_result select_symbols_outcome OnSecuritiesChanged_def)

subsection \<open>C7: the settings written by Initialize\<close>

text \<open>
  C7. After \<^verbatim>\<open>Initialize\<close>, whether it raised or not, the algorithm object is the one it
  was given with the universe resolution set to daily, the start date to 2022-02-14, the
  end date to 2022-02-18, the cash to 100000, and the universe
  \<^verbatim>\<open>SmartInsiderIntentionUniverse\<close> with \<^verbatim>\<open>UniverseSelection\<close> as its selector added to the
  registered universes. The historical query is issued after that: two engines whose
  answers agree whenever these settings are in place and the query is for that universe
  over 10 days give the same \<^verbatim>\<open>Initialize\<close>.
\<close>

theorem Initialize_settings_before_history:
  "fst (Initialize History self) =
     self\<lparr>UniverseSettings_Resolution := Daily, StartDate := (2022, 2, 14), EndDate := (2022, 2, 18),
       Cash := 100000,
       Universes := Universes self @
         [\<lparr>data_type = ''SmartInsiderIntentionUniverse'', universe_selector = UniverseSelection_method\<rparr>]\<rparr> \<and>
   selector_method UniverseSelection_method str_sym str_num = UniverseSelection str_sym str_num \<and>
   ((\<forall>a u t. UniverseSettings_Resolution a = Daily \<and> StartDate a = (2022, 2, 14) \<and>
        EndDate a = (2022, 2, 18) \<and> Cash a = 100000 \<and>
        u = \<lparr>data_type = ''SmartInsiderIntentionUniverse'', universe_selector = UniverseSelection_method\<rparr> \<and>
        u \<in> set (Universes a) \<and> t = TimeSpan 10 0 0 0 \<longrightarrow> History a u t = History' a u t) \<longrightarrow>
      Initialize History self = Initialize History' self)"
proof (intro conjI impI)
  show "fst (Initialize History self) =
     self\<lparr>UniverseSettings_Resolution := Daily, StartDate := (2022, 2, 14), EndDate := (2022, 2, 18),
       Cash := 100000,
       Universes := Universes self @
         [\<lparr>data_type = ''SmartInsiderIntentionUniverse'', universe_selector = UniverseSelection_method\<rparr>]\<rparr>"
    by (simp add: Initialize_eq Initialize_settings_eq Let_def)
  show "selector_method UniverseSelection_method str_sym str_num = UniverseSelection str_sym str_num"
    by simp
  assume agree: "\<forall>a u t. UniverseSettings_Resolution a = Daily \<and> StartDate a = (2022, 2, 14) \<and>
        EndDate a = (2022, 2, 18) \<and> Cash a = 100000 \<and>
        u = \<lparr>data_type = ''SmartInsiderIntentionUniverse'', universe_selector = UniverseSelection_method\<rparr> \<and>
        u \<in> set (Universes a) \<and> t = TimeSpan 10 0 0 0 \<longrightarrow> History a u t = History' a u t"
  have "History (snd (Initialize_settings self)) (fst (Initialize_settings self)) (TimeSpan 10 0 0 0) =
      History' (snd (Initialize_settings self)) (fst (Initialize_settings self)) (TimeSpan 10 0 0 0)"
    using agree by (simp add: Initialize_settings_eq)
  then show "Initialize History self = Initialize History' self"
    by (simp add: Initialize_eq)
qed

theorem Initialize_settings_before_history_witness:
  "Initialize (\<lambda>a u t. if StartDate a = (2022, 2, 14) then replicate 10 [True] else []) default_algorithm =
     Initialize (\<lambda>a u t. replicate 10 [True]) default_algorithm \<and>
   snd (Initialize (\<lambda>a u t. if StartDate a = (2022, 2, 14) then replicate 10 [True] else [])
          default_algorithm) = Inr ()"
proof -
  let ?H = "\<lambda>(a :: algorithm) (u :: universe) (t :: timespan).
      if StartDate a = (2022, 2, 14) then replicate 10 [True] else []"
  let ?H' = "\<lambda>(a :: algorithm) (u :: universe) (t :: timespan). replicate 10 [True]"
  have agree: "\<forall>a u t. UniverseSettings_Resolution a = Daily \<and> StartDate a = (2022, 2, 14) \<and>
        EndDate a = (2022, 2, 18) \<and> Cash a = 100000 \<and>
        u = \<lparr>data_type = ''SmartInsiderIntentionUniverse'', universe_selector = UniverseSelection_method\<rparr> \<and>
        u \<in> set (Universes a) \<and> t = TimeSpan 10 0 0 0 \<longrightarrow> ?H a u t = ?H' a u t"
    by simp
  have eq: "Initialize ?H default_algorithm = Initialize ?H' default_algorithm"
    by (rule Initialize_settings_before_history [of ?H default_algorithm "\<lambda>s :: string. s" "\<lambda>x. ''1''" ?H',
          THEN conjunct2, THEN conjunct2, THEN mp, OF agree])
  have "snd (Initialize ?H' default_algorithm) = Inr ()"
    by (simp add: Initialize_eq Let_def)
  with eq show ?thesis by simp
qed

subsection \<open>C8: OnSecuritiesChanged\<close>

text \<open>
  C8. \<^verbatim>\<open>OnSecuritiesChanged\<close> appends exactly one line to the log, the string
  representation of the changes record, changes nothing else of the algorithm object and
  returns no value.
\<close>

theorem OnSecuritiesChanged_logs_only:
  "OnSecuritiesChanged ToString self changes =
     (self\<lparr>LogLines := LogLines self @ [ToString changes]\<rparr>, Inr ())"
  by (simp add: OnSecuritiesChanged_def Log_def)

subsection \<open>C9: the empty collection\<close>

text \<open>
  C9. On the empty collection \<^verbatim>\<open>UniverseSelection\<close> returns the empty list without
  raising, and the algorithm object, its log included, is unchanged.
\<close>

theorem UniverseSelection_empty:
  "UniverseSelection str_sym str_num self [] = (self, Inr []) \<and>
   LogLines (fst (UniverseSelection str_sym str_num self [])) = LogLines self"
  by (simp add: UniverseSelection_def)

subsection \<open>C10: the count is checked first\<close>

text \<open>
  C10. When the historical query returns a number of dated entries other than 10,
  \<^verbatim>\<open>Initialize\<close> raises the history-count error, and the entries themselves play no part:
  any history of the same length gives the same outcome. The error about unexpected
  historical universe data is raised only when the count is exactly 10.
\<close>

theorem count_check_precedes_date_check:
  assumes "Initialize_settings self = (universe, self')"
    and "History self' universe (TimeSpan 10 0 0 0) = (history :: 'd list list)"
  shows "(length history \<noteq> 10 \<longrightarrow>
            snd (Initialize History self) =
              Inl (ValueError (''Unexpected history count '' @ str_nat (length history) @ ''!'')) \<and>
            (\<forall>history' :: 'd list list. length history' = length history \<longrightarrow>
               Initialize (\<lambda>a u t. history') self = Initialize History self)) \<and>
         (snd (Initialize History self) = Inl (ValueError ''Unexpected historical universe data!'') \<longrightarrow>
            length history = 10)"
proof (intro conjI impI allI)
  assume "length history \<noteq> 10"
  then show "snd (Initialize History self) =
      Inl (ValueError (''Unexpected history count '' @ str_nat (length history) @ ''!''))"
    using assms by (simp add: Initialize_eq)
next
  fix history' :: "'d list list"
  assume "length history \<noteq> 10" and "length history' = length history"
  then show "Initialize (\<lambda>a u t. history') self = Initialize History self"
    using assms by (simp add: Initialize_eq)
next
  assume "snd (Initialize History self) = Inl (ValueError ''Unexpected historical universe data!'')"
  then show "length history = 10"
    using assms by (simp add: Initialize_eq split: if_splits)
qed

theorem count_check_precedes_date_check_witness:
  "snd (Initialize (\<lambda>a u t. replicate 9 ([] :: bool list)) default_algorithm) =
     Inl (ValueError ''Unexpected history count 9!'') \<and>
   Initialize (\<lambda>a u t. replicate 9 [True]) default_algorithm =
     Initialize (\<lambda>a u t. replicate 9 ([] :: bool list)) default_algorithm"
proof -
  obtain universe self' where s: "Initialize_settings default_algorithm = (universe, self')"
    by (cases "Initialize_settings default_algorithm")
  have nine: "str_nat 9 = ''9''"
    by code_simp
  have len: "length (replicate 9 ([] :: bool list)) \<noteq> 10"
    by simp
  have h: "(\<lambda>a u t. replicate 9 ([] :: bool list)) self' universe (TimeSpan 10 0 0 0) = replicate 9 []"
    by simp
  note c = count_check_precedes_date_check [OF s h, THEN conjunct1, THEN mp, OF len]
  have "snd (Initialize (\<lambda>a u t. replicate 9 ([] :: bool list)) default_algorithm) =
     Inl (ValueError ''Unexpected history count 9!'')"
    using c [THEN conjunct1] by (simp add: nine)
  moreover have "Initialize (\<lambda>a u t. replicate 9 [True]) default_algorithm =
     Initialize (\<lambda>a u t. replicate 9 ([] :: bool list)) default_algorithm"
  proof -
    have "\<forall>history' :: bool list list. length history' = length (replicate 9 ([] :: bool list)) \<longrightarrow>
        Initialize (\<lambda>a u t. history') default_algorithm =
        Initialize (\<lambda>a u t. replicate 9 ([] :: bool list)) default_algorithm"
      using c by (rule conjunct2)
    then have "length (replicate 9 [True]) = length (replicate 9 ([] :: bool list)) \<longrightarrow>
        Initialize (\<lambda>a u t. replicate 9 [True]) default_algorithm =
        Initialize (\<lambda>a u t. replicate 9 ([] :: bool list)) default_algorithm"
      by (rule spec)
    moreover have "length (replicate 9 [True]) = length (replicate 9 ([] :: bool list))"
      by simp
    ultimately show ?thesis by (rule mp)
  qed
  ultimately show ?thesis by (intro conjI)
qed

end
